theory Spec2Isabelle
  imports Complex_Main "HOL-Library.Product_Lexorder" "HOL-Library.AList"
begin

section \<open>Shared vocabulary: errors, timestamps, Python string helpers\<close>

text \<open>
  The two source files are \<^verbatim>\<open>synoptic_api_get.py\<close> (the JSON provider) and
  \<^verbatim>\<open>utahaq_api_get.py\<close> (the monthly CSV archive). Exceptions are values: a call
  returns \<open>error + table\<close>, with \<open>Inl\<close> for a raised exception, named by its Python
  category.
\<close>

datatype error = OSError | ValueError | KeyError | TypeError

text \<open>
  A \<^verbatim>\<open>pd.Timestamp\<close> is read through its calendar fields and its time zone, which is
  none (a tz-naive timestamp, as \<^verbatim>\<open>pd.Timestamp('2019-01-02 00:00:00')\<close> is) or UTC;
  an aware timestamp of another zone is outside this model. Between two timestamps of the
  same awareness, chronological order is the lexicographic order of the fields. pandas
  refuses to order a naive against an aware value: that check is written out where the
  code compares (\<open>index_within\<close> below), and \<open>ts_le\<close> is the order of the fields.
\<close>

datatype tz = Naive | UTC

record timestamp =
  year :: nat
  month :: nat
  day :: nat
  hour :: nat
  minute :: nat
  second :: nat
  nanosecond :: nat
  tzinfo :: tz

text \<open>The effect of \<^verbatim>\<open>utc=True\<close> in \<^verbatim>\<open>pd.to_datetime\<close>: the result is UTC-aware.\<close>

definition as_utc :: "timestamp \<Rightarrow> timestamp" where
  "as_utc t = t\<lparr>tzinfo := UTC\<rparr>"

definition ts_key :: "timestamp \<Rightarrow> nat \<times> nat \<times> nat \<times> nat \<times> nat \<times> nat \<times> nat" where
  "ts_key t = (year t, month t, day t, hour t, minute t, second t, nanosecond t)"

definition ts_le :: "timestamp \<Rightarrow> timestamp \<Rightarrow> bool" where
  "ts_le a b \<longleftrightarrow> ts_key a \<le> ts_key b"

definition ts_less :: "timestamp \<Rightarrow> timestamp \<Rightarrow> bool" where
  "ts_less a b \<longleftrightarrow> ts_key a < ts_key b"

definition ascending :: "timestamp list \<Rightarrow> bool" where
  "ascending ts = sorted_wrt ts_le ts"

text \<open>\<^verbatim>\<open>str(n)\<close> for a non-negative integer, \<^verbatim>\<open>s.zfill(w)\<close>, \<^verbatim>\<open>s.upper()\<close>,
  \<^verbatim>\<open>s.lower()\<close> (on ASCII letters) and \<^verbatim>\<open>','.join(xs)\<close>.\<close>

definition decimal_digit :: "nat \<Rightarrow> char" where
  "decimal_digit d = ''0123456789'' ! d"

fun str_nat :: "nat \<Rightarrow> string" where
  "str_nat n = (if n < 10 then [decimal_digit n]
                else str_nat (n div 10) @ [decimal_digit (n mod 10)])"

declare str_nat.simps [simp del]

definition zfill :: "nat \<Rightarrow> string \<Rightarrow> string" where
  "zfill w s = replicate (w - length s) CHR ''0'' @ s"

definition ascii_lowercase :: string where
  "ascii_lowercase = ''abcdefghijklmnopqrstuvwxyz''"

definition ascii_uppercase :: string where
  "ascii_uppercase = ''ABCDEFGHIJKLMNOPQRSTUVWXYZ''"

definition upper :: "string \<Rightarrow> string" where
  "upper s = map (\<lambda>c. case map_of (zip ascii_lowercase ascii_uppercase) c of
                        Some u \<Rightarrow> u | None \<Rightarrow> c) s"

definition lower :: "string \<Rightarrow> string" where
  "lower s = map (\<lambda>c. case map_of (zip ascii_uppercase ascii_lowercase) c of
                        Some l \<Rightarrow> l | None \<Rightarrow> c) s"

fun join :: "string \<Rightarrow> string list \<Rightarrow> string" where
  "join sep [] = []"
| "join sep [x] = x"
| "join sep (x # y # ys) = x @ sep @ join sep (y # ys)"

section \<open>Provider B: \<^verbatim>\<open>utahaq_api_get.py\<close>\<close>

subsection \<open>\<^verbatim>\<open>pd.date_range(start, end, freq='MS')\<close>\<close>

text \<open>
  The month-start offset of pandas: a timestamp is on the offset when its day is 1; one
  that is not is rolled forward to day 1 of the next month, keeping its time of day; the
  range is then generated by adding one month while the current value is not after
  \<open>end\<close>; the time zone is kept. \<^verbatim>\<open>pd.date_range\<close> raises \<^verbatim>\<open>TypeError\<close> when
  one endpoint is naive and the other aware; that test is the first step of
  \<open>utahaq_api_get\<close> below. (The month test is \<open>12 \<le> month\<close> instead of \<open>month = 12\<close> so that the
  generator is total on every record; on calendar months 1..12 the two agree.)
\<close>

definition is_on_offset :: "timestamp \<Rightarrow> bool" where
  "is_on_offset t \<longleftrightarrow> day t = 1"

definition next_month_start :: "timestamp \<Rightarrow> timestamp" where
  "next_month_start t =
     (if 12 \<le> month t then t\<lparr>year := year t + 1, month := 1, day := 1\<rparr>
      else t\<lparr>month := month t + 1, day := 1\<rparr>)"

definition rollforward :: "timestamp \<Rightarrow> timestamp" where
  "rollforward t = (if is_on_offset t then t else next_month_start t)"

function generate_range :: "timestamp \<Rightarrow> timestamp \<Rightarrow> timestamp list" where
  "generate_range cur end =
     (if ts_le cur end then cur # generate_range (next_month_start cur) end else [])"
  by pat_completeness auto
termination
  by (relation "measures [\<lambda>(cur, end). Suc (year end) - year cur,
                          \<lambda>(cur, end). 12 - month cur]")
     (auto simp: ts_le_def ts_key_def next_month_start_def)

declare generate_range.simps [simp del]

definition date_range_MS :: "timestamp \<Rightarrow> timestamp \<Rightarrow> timestamp list" where
  "date_range_MS start end = generate_range (rollforward start) end"

subsection \<open>One monthly batch: \<^verbatim>\<open>_utahaq_batch_get\<close>\<close>

text \<open>
  The archive is the environment: \<open>read_csv\<close> gives, for the URI requested, what
  \<^verbatim>\<open>pd.read_csv(uri, skiprows=True)\<close> does there: it raises
  \<^verbatim>\<open>pd.errors.EmptyDataError\<close> on a body with nothing to parse, or returns the
  parsed rows. A parsed row carries the five columns the code reads (every other column is
  dropped by the final projection). \<open>to_datetime\<close> stands for the parsing of
  \<^verbatim>\<open>pd.to_datetime\<close> on one string, and \<open>as_utc\<close> for its \<^verbatim>\<open>utc=True\<close>.
  Transport failures are not caught by the code and are outside this model.
\<close>

record raw_row =
  Date :: string
  TimeUTC :: string
  esampler_error_code :: int
  esampler_pm25_ugm3 :: real
  esampler_rh_pcent :: real

datatype csv_reply = EmptyDataError | Parsed "raw_row list"

record row =
  stamp :: timestamp
  pm25_ugm3 :: real
  rh_pct :: real

definition UTAHAQ_API_BASE_URI :: string where
  "UTAHAQ_API_BASE_URI = ''http://meso2.chpc.utah.edu/aq/cgi-bin/download_mobile_archive.cgi''"

definition utahaq_uri :: "string \<Rightarrow> string \<Rightarrow> nat \<Rightarrow> nat \<Rightarrow> string \<Rightarrow> string" where
  "utahaq_uri token stid yr mo datatype =
     UTAHAQ_API_BASE_URI
     @ ''?accesskey='' @ token
     @ ''&stid='' @ upper stid
     @ ''&yr='' @ zfill 4 (str_nat yr)
     @ ''&mo='' @ zfill 2 (str_nat mo)
     @ ''&datatype='' @ lower datatype"

definition normalise_row :: "(string \<Rightarrow> timestamp) \<Rightarrow> raw_row \<Rightarrow> row" where
  "normalise_row to_datetime r =
     \<lparr>stamp = as_utc (to_datetime (Date r @ '' '' @ TimeUTC r)),
      pm25_ugm3 = esampler_pm25_ugm3 r,
      rh_pct = esampler_rh_pcent r\<rparr>"

text \<open>The result is \<open>None\<close> where the Python returns \<^verbatim>\<open>None\<close>.\<close>

definition utahaq_batch_get ::
  "(string \<Rightarrow> csv_reply) \<Rightarrow> (string \<Rightarrow> timestamp) \<Rightarrow> string \<Rightarrow>
   string \<Rightarrow> nat \<Rightarrow> nat \<Rightarrow> string \<Rightarrow> row list option" where
  "utahaq_batch_get read_csv to_datetime token stid yr mo datatype =
     (case read_csv (utahaq_uri token stid yr mo datatype) of
        EmptyDataError \<Rightarrow> None
      | Parsed res \<Rightarrow>
          Some (map (normalise_row to_datetime)
                  (filter (\<lambda>r. esampler_error_code r = 0) res)))"

subsection \<open>\<^verbatim>\<open>pd.concat\<close> on the monthly batches\<close>

text \<open>
  \<^verbatim>\<open>pd.concat(objs)\<close> raises \<^verbatim>\<open>ValueError('No objects to concatenate')\<close> on an
  empty list, drops the entries that are \<^verbatim>\<open>None\<close>, raises
  \<^verbatim>\<open>ValueError('All objects passed were None')\<close> when nothing is left, and otherwise
  appends the tables in list order, keeping each row's index.
\<close>

definition pd_concat :: "row list option list \<Rightarrow> error + row list" where
  "pd_concat objs =
     (if objs = [] then Inl ValueError
      else let kept = List.map_filter id objs
           in if kept = [] then Inl ValueError else Inr (concat kept))"

subsection \<open>\<^verbatim>\<open>utahaq_api_get\<close>\<close>

text \<open>
  The call returns the URIs it requested, in order, and its outcome. The index of the
  concatenated table is UTC-aware, every batch being indexed by
  \<^verbatim>\<open>pd.to_datetime(\<dots>, utc=True)\<close>, so the comparisons
  \<^verbatim>\<open>df.index >= start\<close> and \<^verbatim>\<open>df.index <= end\<close> of the last line raise
  \<^verbatim>\<open>TypeError\<close> for a tz-naive \<open>start\<close> or \<open>end\<close>, whatever rows the table
  holds; for aware bounds they compare row by row.
\<close>

definition query_dates :: "timestamp \<Rightarrow> timestamp \<Rightarrow> timestamp list" where
  "query_dates start end =
     (let dates = date_range_MS start end
      in if length dates = 0 then [start] else dates)"

definition in_bound :: "timestamp \<Rightarrow> timestamp \<Rightarrow> row \<Rightarrow> bool" where
  "in_bound start end r \<longleftrightarrow> ts_le start (stamp r) \<and> ts_le (stamp r) end"

definition index_within :: "timestamp \<Rightarrow> timestamp \<Rightarrow> row list \<Rightarrow> error + row list" where
  \<comment> \<open>\<^verbatim>\<open>df[(df.index >= start) & (df.index <= end)]\<close>\<close>
  "index_within start end df =
     (if tzinfo start = Naive then Inl TypeError
      else if tzinfo end = Naive then Inl TypeError
      else Inr (filter (in_bound start end) df))"

definition utahaq_api_get ::
  "(string \<Rightarrow> csv_reply) \<Rightarrow> (string \<Rightarrow> timestamp) \<Rightarrow> string \<Rightarrow>
   string \<Rightarrow> timestamp \<Rightarrow> timestamp \<Rightarrow> string \<Rightarrow> string list \<times> (error + row list)" where
  "utahaq_api_get read_csv to_datetime token stid start end datatype =
     (if tzinfo start \<noteq> tzinfo end then ([], Inl TypeError)
      else
        let dates = query_dates start end;
            uris = map (\<lambda>date. utahaq_uri token stid (year date) (month date) datatype) dates;
            df_list = map (\<lambda>date. utahaq_batch_get read_csv to_datetime token stid
                                    (year date) (month date) datatype) dates
        in (uris,
            case pd_concat df_list of
              Inl e \<Rightarrow> Inl e
            | Inr df \<Rightarrow> index_within start end df))"

section \<open>Provider A: \<^verbatim>\<open>synoptic_api_get.py\<close>\<close>

subsection \<open>Arguments and request parameters\<close>

text \<open>
  The arguments are dynamically typed, and the code tests \<^verbatim>\<open>type(x) is list\<close> and
  \<^verbatim>\<open>type(x) is pd.Timestamp\<close>: a value carries its exact runtime type. A subclass
  instance of \<^verbatim>\<open>pd.Timestamp\<close> is a value of its own.
\<close>

datatype pyval =
    PyNone
  | PyStr string
  | PyList "string list"
  | PyTuple "string list"
  | PyTimestamp timestamp
  | PyTimestampSubclass timestamp

datatype pytype = NoneType | str | list | tuple | Timestamp | TimestampSubclass

fun type_of :: "pyval \<Rightarrow> pytype" where
  "type_of PyNone = NoneType"
| "type_of (PyStr s) = str"
| "type_of (PyList xs) = list"
| "type_of (PyTuple xs) = tuple"
| "type_of (PyTimestamp t) = Timestamp"
| "type_of (PyTimestampSubclass t) = TimestampSubclass"

definition strftime :: "timestamp \<Rightarrow> string" where
  \<comment> \<open>\<^verbatim>\<open>t.strftime('%Y%m%d%H%M')\<close>\<close>
  "strftime t =
     zfill 4 (str_nat (year t)) @ zfill 2 (str_nat (month t)) @ zfill 2 (str_nat (day t))
     @ zfill 2 (str_nat (hour t)) @ zfill 2 (str_nat (minute t))"

definition join_if_list :: "pyval \<Rightarrow> pyval" where
  "join_if_list v = (case v of PyList xs \<Rightarrow> PyStr (join '','' xs) | _ \<Rightarrow> v)"

definition format_if_timestamp :: "pyval \<Rightarrow> pyval" where
  "format_if_timestamp v = (case v of PyTimestamp t \<Rightarrow> PyStr (strftime t) | _ \<Rightarrow> v)"

definition synoptic_params ::
  "pyval \<Rightarrow> pyval \<Rightarrow> pyval \<Rightarrow> pyval \<Rightarrow> pyval \<Rightarrow> (string \<times> pyval) list" where
  "synoptic_params token stid start end api_vars =
     (let stid = join_if_list stid;
          api_vars = join_if_list api_vars;
          start = format_if_timestamp start;
          end = format_if_timestamp end
      in [(''token'', token), (''stid'', stid), (''start'', start), (''end'', end),
          (''vars'', api_vars)])"

subsection \<open>The response and the per-station tables\<close>

text \<open>
  The parsed JSON body, typed as the provider documents it: \<^verbatim>\<open>SUMMARY.RESPONSE_CODE\<close>
  and the \<^verbatim>\<open>STATION\<close> array; \<^verbatim>\<open>OBSERVATIONS\<close> is a JSON object, here its items in
  key order (keys distinct), each value an array. A table under construction is the
  dictionary given to \<^verbatim>\<open>pd.DataFrame\<close>: column name to a scalar or an array, in
  insertion order; a later \<^verbatim>\<open>**obs\<close> item with the name of an earlier key replaces its
  value and keeps its place.
\<close>

datatype cell = Num real | Str string | Stamp timestamp | Null

record station =
  STID :: string
  LATITUDE :: real
  LONGITUDE :: real
  OBSERVATIONS :: "(string \<times> cell list) list"

record response =
  RESPONSE_CODE :: int
  STATION :: "station list"

datatype colspec = Scalar cell | Array "cell list"

type_synonym frame = "(string \<times> cell list) list"

record table =
  index :: "cell list"
  columns :: frame

definition nrows :: "frame \<Rightarrow> nat" where
  "nrows df = (case df of [] \<Rightarrow> 0 | (k, xs) # _ \<Rightarrow> length xs)"

fun array_length :: "colspec \<Rightarrow> nat option" where
  "array_length (Scalar c) = None"
| "array_length (Array xs) = Some (length xs)"

fun broadcast :: "nat \<Rightarrow> colspec \<Rightarrow> cell list" where
  "broadcast n (Scalar c) = replicate n c"
| "broadcast n (Array xs) = xs"

text \<open>
  \<^verbatim>\<open>pd.DataFrame(dict)\<close>: the arrays must have one length (\<^verbatim>\<open>ValueError\<close>
  otherwise, also when every value is a scalar); scalars are repeated to that length.
\<close>

definition DataFrame :: "(string \<times> colspec) list \<Rightarrow> error + frame" where
  "DataFrame d =
     (case List.map_filter (\<lambda>(k, v). array_length v) d of
        [] \<Rightarrow> Inl ValueError
      | n # ns \<Rightarrow>
          if list_all (\<lambda>m. m = n) ns
          then Inr (map (\<lambda>(k, v). (k, broadcast n v)) d)
          else Inl ValueError)"

definition station_dict :: "(cell \<Rightarrow> timestamp) \<Rightarrow> station \<Rightarrow> error + (string \<times> colspec) list" where
  "station_dict to_datetime st =
     (let obs = OBSERVATIONS st
      in case map_of obs ''date_time'' of
           None \<Rightarrow> Inl KeyError
         | Some raw \<Rightarrow>
             let date = map (\<lambda>c. as_utc (to_datetime c)) raw;
                 obs = AList.delete ''date_time'' obs
             in Inr (fold (\<lambda>(k, v). AList.update k (Array v)) obs
                       [(''date'', Array (map Stamp date)),
                        (''stid'', Scalar (Str (STID st))),
                        (''latitude'', Scalar (Num (LATITUDE st))),
                        (''longitude'', Scalar (Num (LONGITUDE st)))]))"

definition station_frame :: "(cell \<Rightarrow> timestamp) \<Rightarrow> station \<Rightarrow> error + frame" where
  "station_frame to_datetime st =
     (case station_dict to_datetime st of Inl e \<Rightarrow> Inl e | Inr d \<Rightarrow> DataFrame d)"

fun station_frames :: "(cell \<Rightarrow> timestamp) \<Rightarrow> station list \<Rightarrow> error + frame list" where
  "station_frames to_datetime [] = Inr []"
| "station_frames to_datetime (st # sts) =
     (case station_frame to_datetime st of
        Inl e \<Rightarrow> Inl e
      | Inr df \<Rightarrow>
          (case station_frames to_datetime sts of
             Inl e \<Rightarrow> Inl e
           | Inr dfs \<Rightarrow> Inr (df # dfs)))"

subsection \<open>\<^verbatim>\<open>pd.concat(df_list, ignore_index=True).set_index('date')\<close>\<close>

text \<open>
  Concatenation raises \<^verbatim>\<open>ValueError\<close> on an empty list. The columns of the result are
  those of the tables in order of first appearance; the rows are those of the tables in
  list order, with a missing value where a table lacks a column. Nothing is sorted.
  \<^verbatim>\<open>set_index\<close> moves the named column into the index (\<^verbatim>\<open>KeyError\<close> without it).
\<close>

fun first_seen :: "'a list \<Rightarrow> 'a list \<Rightarrow> 'a list" where
  "first_seen acc [] = acc"
| "first_seen acc (x # xs) = first_seen (if x \<in> set acc then acc else acc @ [x]) xs"

definition column_of :: "string \<Rightarrow> frame \<Rightarrow> cell list" where
  "column_of c df = (case map_of df c of Some xs \<Rightarrow> xs | None \<Rightarrow> replicate (nrows df) Null)"

definition pd_concat_frames :: "frame list \<Rightarrow> error + frame" where
  "pd_concat_frames dfs =
     (if dfs = [] then Inl ValueError
      else Inr (map (\<lambda>c. (c, concat (map (column_of c) dfs)))
                  (first_seen [] (concat (map (map fst) dfs)))))"

definition set_index :: "string \<Rightarrow> frame \<Rightarrow> error + table" where
  "set_index k df =
     (case map_of df k of
        None \<Rightarrow> Inl KeyError
      | Some xs \<Rightarrow> Inr \<lparr>index = xs, columns = AList.delete k df\<rparr>)"

subsection \<open>\<^verbatim>\<open>synoptic_api_get\<close>\<close>

text \<open>
  \<open>http_get\<close> is the provider: the parsed body of the one GET request carrying the
  parameters. \<open>normalise\<close> is the code after the two status tests.
\<close>

definition normalise :: "(cell \<Rightarrow> timestamp) \<Rightarrow> station list \<Rightarrow> error + table" where
  "normalise to_datetime stations =
     (case station_frames to_datetime stations of
        Inl e \<Rightarrow> Inl e
      | Inr df_list \<Rightarrow>
          (case pd_concat_frames df_list of
             Inl e \<Rightarrow> Inl e
           | Inr df \<Rightarrow> set_index ''date'' df))"

definition synoptic_api_get ::
  "((string \<times> pyval) list \<Rightarrow> response) \<Rightarrow> (cell \<Rightarrow> timestamp) \<Rightarrow> pyval \<Rightarrow>
   pyval \<Rightarrow> pyval \<Rightarrow> pyval \<Rightarrow> pyval \<Rightarrow> error + table" where
  "synoptic_api_get http_get to_datetime token stid start end api_vars =
     (let res = http_get (synoptic_params token stid start end api_vars)
      in if RESPONSE_CODE res \<in> {-1, 200} then Inl OSError
         else if RESPONSE_CODE res = 2 then Inl ValueError
         else normalise to_datetime (STATION res))"

text \<open>
  What one station contributes to the \<^verbatim>\<open>date\<close> column: its \<^verbatim>\<open>date_time\<close> array as
  \<^verbatim>\<open>pd.to_datetime(\<dots>, utc=True)\<close> reads it, in the order of the array. Likewise the timestamps of one
  monthly batch of Provider B, in the order of its rows.
\<close>

definition station_index :: "(cell \<Rightarrow> timestamp) \<Rightarrow> station \<Rightarrow> cell list" where
  "station_index to_datetime st =
     (case map_of (OBSERVATIONS st) ''date_time'' of
        None \<Rightarrow> []
      | Some raw \<Rightarrow> map (\<lambda>c. Stamp (as_utc (to_datetime c))) raw)"

definition batch_index ::
  "(string \<Rightarrow> csv_reply) \<Rightarrow> (string \<Rightarrow> timestamp) \<Rightarrow> string \<Rightarrow>
   string \<Rightarrow> string \<Rightarrow> timestamp \<Rightarrow> timestamp list" where
  "batch_index read_csv to_datetime token stid datatype date =
     (case utahaq_batch_get read_csv to_datetime token stid (year date) (month date) datatype of
        None \<Rightarrow> []
      | Some rows \<Rightarrow> map stamp rows)"

section \<open>Concrete inputs\<close>

subsection \<open>A reader of fixed-width timestamps\<close>

text \<open>
  Concrete runs need a concrete \<open>to_datetime\<close>. This one reads the digits of
  \<^verbatim>\<open>YYYY-MM-DD HH:MM:SS\<close> by position (any separator characters), which is how
  pandas reads both the archive's \<^verbatim>\<open>Date + ' ' + TimeUTC\<close> and the JSON provider's
  \<^verbatim>\<open>YYYY-MM-DDTHH:MM:SSZ\<close>.
\<close>

definition digit_value :: "char \<Rightarrow> nat" where
  "digit_value c =
     (case map_of (zip ''0123456789'' [0, 1, 2, 3, 4, 5, 6, 7, 8, 9]) c of
        Some d \<Rightarrow> d | None \<Rightarrow> 0)"

definition read_number :: "string \<Rightarrow> nat" where
  "read_number s = foldl (\<lambda>n c. 10 * n + digit_value c) 0 s"

definition read_datetime :: "string \<Rightarrow> timestamp" where
  "read_datetime s =
     \<lparr>year = read_number (take 4 s),
      month = read_number (take 2 (drop 5 s)),
      day = read_number (take 2 (drop 8 s)),
      hour = read_number (take 2 (drop 11 s)),
      minute = read_number (take 2 (drop 14 s)),
      second = read_number (take 2 (drop 17 s)),
      nanosecond = 0,
      tzinfo = UTC\<rparr>"

fun read_cell :: "cell \<Rightarrow> timestamp" where
  "read_cell (Str s) = read_datetime s"
| "read_cell (Stamp t) = t"
| "read_cell c = read_datetime []"

subsection \<open>Archives, replies and expected tables\<close>

text \<open>\<open>ymd_hms\<close> builds the tz-naive timestamp that \<^verbatim>\<open>pd.Timestamp('Y-M-D h:m:s')\<close> is.\<close>

definition ymd_hms :: "nat \<Rightarrow> nat \<Rightarrow> nat \<Rightarrow> nat \<Rightarrow> nat \<Rightarrow> nat \<Rightarrow> timestamp" where
  "ymd_hms y mo d h mi s =
     \<lparr>year = y, month = mo, day = d, hour = h, minute = mi, second = s, nanosecond = 0,
      tzinfo = Naive\<rparr>"

definition mid_january :: timestamp where
  "mid_january = ymd_hms 2019 1 15 0 0 0"

definition mid_february :: timestamp where
  "mid_february = ymd_hms 2019 2 10 0 0 0"

text \<open>
  The 30-second window of the docstring's example, with tz-naive bounds as the docstring
  writes them, and with UTC-aware bounds.
\<close>

definition docstring_start :: timestamp where
  "docstring_start = ymd_hms 2019 1 2 0 0 0"

definition docstring_end :: timestamp where
  "docstring_end = ymd_hms 2019 1 2 0 0 30"

definition window_start :: timestamp where
  "window_start = as_utc (ymd_hms 2019 1 2 0 0 0)"

definition window_end :: timestamp where
  "window_end = as_utc (ymd_hms 2019 1 2 0 0 30)"

text \<open>
  An archive that holds one month, January 2019 of station HAWTH: five rows around
  midnight of 2 January, the third flagged by the sampler. Every other request finds
  nothing to parse.
\<close>

definition hawth_rows :: "raw_row list" where
  "hawth_rows =
     [\<lparr>Date = ''2019-01-01'', TimeUTC = ''23:59:50'', esampler_error_code = 0,
       esampler_pm25_ugm3 = 4, esampler_rh_pcent = 28\<rparr>,
      \<lparr>Date = ''2019-01-02'', TimeUTC = ''00:00:00'', esampler_error_code = 0,
       esampler_pm25_ugm3 = 3, esampler_rh_pcent = 28\<rparr>,
      \<lparr>Date = ''2019-01-02'', TimeUTC = ''00:00:10'', esampler_error_code = 5,
       esampler_pm25_ugm3 = 3, esampler_rh_pcent = 28\<rparr>,
      \<lparr>Date = ''2019-01-02'', TimeUTC = ''00:00:30'', esampler_error_code = 0,
       esampler_pm25_ugm3 = 2, esampler_rh_pcent = 28\<rparr>,
      \<lparr>Date = ''2019-01-02'', TimeUTC = ''00:00:40'', esampler_error_code = 0,
       esampler_pm25_ugm3 = 2, esampler_rh_pcent = 28\<rparr>]"

definition hawth_archive :: "string \<Rightarrow> csv_reply" where
  "hawth_archive uri =
     (if uri = utahaq_uri ''key'' ''hawth'' 2019 1 ''pm'' then Parsed hawth_rows
      else EmptyDataError)"

definition hawth_batch :: "row list" where
  "hawth_batch =
     [\<lparr>stamp = as_utc (ymd_hms 2019 1 1 23 59 50), pm25_ugm3 = 4, rh_pct = 28\<rparr>,
      \<lparr>stamp = as_utc (ymd_hms 2019 1 2 0 0 0), pm25_ugm3 = 3, rh_pct = 28\<rparr>,
      \<lparr>stamp = as_utc (ymd_hms 2019 1 2 0 0 30), pm25_ugm3 = 2, rh_pct = 28\<rparr>,
      \<lparr>stamp = as_utc (ymd_hms 2019 1 2 0 0 40), pm25_ugm3 = 2, rh_pct = 28\<rparr>]"

definition hawth_window :: "row list" where
  "hawth_window =
     [\<lparr>stamp = as_utc (ymd_hms 2019 1 2 0 0 0), pm25_ugm3 = 3, rh_pct = 28\<rparr>,
      \<lparr>stamp = as_utc (ymd_hms 2019 1 2 0 0 30), pm25_ugm3 = 2, rh_pct = 28\<rparr>]"

definition empty_archive :: "string \<Rightarrow> csv_reply" where
  "empty_archive uri = EmptyDataError"

text \<open>
  Replies of the JSON provider: two stations reporting at the same two times (KSLC with a
  second variable), the same reply reduced to KSLC, a reply with a success status and no
  station, and the two failure statuses. The arguments are those of the docstring's
  example, with the variable given as a one-element list.
\<close>

definition kslc :: station where
  "kslc =
     \<lparr>STID = ''KSLC'', LATITUDE = 40.77069, LONGITUDE = -111.96503,
      OBSERVATIONS =
        [(''date_time'', [Str ''2019-01-01T00:00:00Z'', Str ''2019-01-01T00:05:00Z'']),
         (''air_temp_set_1'', [Num (-5), Num (-4)]),
         (''wind_speed_set_1'', [Num 1.5, Null])]\<rparr>"

definition wbb :: station where
  "wbb =
     \<lparr>STID = ''WBB'', LATITUDE = 40.76623, LONGITUDE = -111.84755,
      OBSERVATIONS =
        [(''date_time'', [Str ''2019-01-01T00:00:00Z'', Str ''2019-01-01T00:05:00Z'']),
         (''air_temp_set_1'', [Num (-3), Num (-3)])]\<rparr>"

definition two_station_provider :: "(string \<times> pyval) list \<Rightarrow> response" where
  "two_station_provider params = \<lparr>RESPONSE_CODE = 1, STATION = [kslc, wbb]\<rparr>"

definition kslc_provider :: "(string \<times> pyval) list \<Rightarrow> response" where
  "kslc_provider params = \<lparr>RESPONSE_CODE = 1, STATION = [kslc]\<rparr>"

definition no_station_provider :: "(string \<times> pyval) list \<Rightarrow> response" where
  "no_station_provider params = \<lparr>RESPONSE_CODE = 1, STATION = []\<rparr>"

definition no_data_provider :: "(string \<times> pyval) list \<Rightarrow> response" where
  "no_data_provider params = \<lparr>RESPONSE_CODE = 2, STATION = []\<rparr>"

definition bad_token_provider :: "(string \<times> pyval) list \<Rightarrow> response" where
  "bad_token_provider params = \<lparr>RESPONSE_CODE = 200, STATION = []\<rparr>"

definition midnight :: timestamp where
  "midnight = as_utc (ymd_hms 2019 1 1 0 0 0)"

definition five_past :: timestamp where
  "five_past = as_utc (ymd_hms 2019 1 1 0 5 0)"

text \<open>The tables the code builds from the one-station and the two-station reply.\<close>

definition kslc_table :: table where
  "kslc_table =
     \<lparr>index = [Stamp midnight, Stamp five_past],
      columns =
        [(''stid'', [Str ''KSLC'', Str ''KSLC'']),
         (''latitude'', [Num 40.77069, Num 40.77069]),
         (''longitude'', [Num (-111.96503), Num (-111.96503)]),
         (''air_temp_set_1'', [Num (-5), Num (-4)]),
         (''wind_speed_set_1'', [Num 1.5, Null])]\<rparr>"

definition two_station_table :: table where
  "two_station_table =
     \<lparr>index = [Stamp midnight, Stamp five_past, Stamp midnight, Stamp five_past],
      columns =
        [(''stid'', [Str ''KSLC'', Str ''KSLC'', Str ''WBB'', Str ''WBB'']),
         (''latitude'', [Num 40.77069, Num 40.77069, Num 40.76623, Num 40.76623]),
         (''longitude'', [Num (-111.96503), Num (-111.96503), Num (-111.84755), Num (-111.84755)]),
         (''air_temp_set_1'', [Num (-5), Num (-4), Num (-3), Num (-3)]),
         (''wind_speed_set_1'', [Num 1.5, Null, Null, Null])]\<rparr>"

section \<open>Properties\<close>

subsection \<open>Order of timestamps and the month range\<close>

lemma ts_le_trans: "ts_le a b \<Longrightarrow> ts_le b c \<Longrightarrow> ts_le a c"
  unfolding ts_le_def by (rule order_trans)

lemma ts_less_not_le: "ts_less a b \<longleftrightarrow> \<not> ts_le b a"
  unfolding ts_le_def ts_less_def by (rule less_le_not_le[THEN trans]) auto

lemma ts_le_rollforward: "ts_le t (rollforward t)"
  by (simp add: rollforward_def ts_le_def ts_key_def next_month_start_def is_on_offset_def)

lemma generate_range_after: "\<not> ts_le cur end \<Longrightarrow> generate_range cur end = []"
  by (simp add: generate_range.simps)

lemma date_range_MS_reversed: "ts_less end start \<Longrightarrow> date_range_MS start end = []"
  unfolding date_range_MS_def
  by (rule generate_range_after) (metis ts_le_trans ts_le_rollforward ts_less_not_le)

lemma query_dates_reversed: "ts_less end start \<Longrightarrow> query_dates start end = [start]"
  by (simp add: query_dates_def date_range_MS_reversed)

lemma query_dates_nonempty: "query_dates start end \<noteq> []"
  by (auto simp: query_dates_def Let_def)

lemma map_filter_id_Nones: "List.map_filter id (map (\<lambda>x. None) xs) = []"
  by (induction xs) (simp_all add: List.map_filter_simps)

lemma set_map_filter_id: "set (List.map_filter id objs) = {x. Some x \<in> set objs}"
  by (induction objs) (auto simp: List.map_filter_simps split: option.splits)

lemma pd_concat_member:
  "pd_concat objs = Inr df \<Longrightarrow> r \<in> set df \<Longrightarrow> \<exists>rows. Some rows \<in> set objs \<and> r \<in> set rows"
  by (auto simp: pd_concat_def Let_def set_map_filter_id split: if_splits)

text \<open>
  When \<open>start\<close> is not on the first day of its month and the next month start is not
  after \<open>end\<close>, the first month requested is the month after the one containing
  \<open>start\<close>.
\<close>

lemma query_dates_skip_first_month:
  assumes "day start \<noteq> 1" and "ts_le (next_month_start start) end"
  shows "hd (query_dates start end) = next_month_start start"
proof -
  have "date_range_MS start end
          = next_month_start start
            # generate_range (next_month_start (next_month_start start)) end"
    unfolding date_range_MS_def rollforward_def is_on_offset_def
    using assms by (simp add: generate_range.simps [of "next_month_start start"])
  then show ?thesis by (simp add: query_dates_def)
qed

lemma query_dates_jan15_feb10:
  "query_dates mid_january mid_february = [ymd_hms 2019 2 1 0 0 0]"
  by (simp add: query_dates_def date_range_MS_def rollforward_def is_on_offset_def
      next_month_start_def ymd_hms_def as_utc_def generate_range.simps ts_le_def ts_key_def
      mid_january_def mid_february_def window_start_def window_end_def)

text \<open>
  Claim C1 says that the monthly requests cover exactly the calendar months that contain a
  part of \<open>[start, end]\<close>, so that a range spanning N month boundaries issues N+1
  requests. The code starts the range at the first month start on or after \<open>start\<close>:
  for 15 January to 10 February 2019, a range over one month boundary, it issues the
  single request for February and none for January, the month containing \<open>start\<close>.
\<close>
theorem C1_start_month_not_requested:
  "map (\<lambda>date. (year date, month date))
     (query_dates mid_january mid_february) = [(2019, 2)]
   \<and> fst (utahaq_api_get read_csv to_datetime token stid
            mid_january mid_february datatype)
     = [utahaq_uri token stid 2019 2 datatype]"
  unfolding utahaq_api_get_def query_dates_jan15_feb10
  by (simp add: ymd_hms_def mid_january_def mid_february_def)

text \<open>
  Claim C2 says that a call whose every monthly batch has no data returns an empty table
  and raises nothing. When every request finds nothing to parse, the call raises, whatever
  the range: each batch is \<^verbatim>\<open>None\<close> and the concatenation raises
  \<^verbatim>\<open>ValueError\<close> (bounds of which one is naive and one aware are refused before,
  with \<^verbatim>\<open>TypeError\<close>).
\<close>
theorem C2_all_batches_empty_raises:
  "snd (utahaq_api_get empty_archive to_datetime token stid start end datatype)
     = (if tzinfo start = tzinfo end then Inl ValueError else Inl TypeError)"
  by (simp add: utahaq_api_get_def utahaq_batch_get_def empty_archive_def pd_concat_def
      query_dates_nonempty map_filter_id_Nones)

text \<open>
  Claim C5: every row of a table returned by \<open>utahaq_api_get\<close> has its timestamp
  within the inclusive bound \<open>[start, end]\<close>, whatever rows the monthly batches hold.
\<close>
theorem C5_rows_within_bound:
  "snd (utahaq_api_get read_csv to_datetime token stid start end datatype) = Inr df \<Longrightarrow>
   \<forall>r \<in> set df. ts_le start (stamp r) \<and> ts_le (stamp r) end"
  by (auto simp: utahaq_api_get_def Let_def index_within_def in_bound_def
           split: sum.splits if_splits)

text \<open>
  Claim C6: a monthly batch that parses to rows returns a table (no error) holding the
  rows whose \<^verbatim>\<open>esampler_error_code\<close> is 0, and every row of a table returned by
  \<open>utahaq_api_get\<close> is the normalisation of a parsed row of one of the requested
  months whose \<^verbatim>\<open>esampler_error_code\<close> is 0.
\<close>
theorem C6_flagged_rows_dropped:
  "(read_csv (utahaq_uri token stid yr mo datatype) = Parsed res \<longrightarrow>
      utahaq_batch_get read_csv to_datetime token stid yr mo datatype
        = Some (map (normalise_row to_datetime) (filter (\<lambda>r. esampler_error_code r = 0) res)))
   \<and> (snd (utahaq_api_get read_csv to_datetime token stid start end datatype) = Inr df \<longrightarrow>
      (\<forall>r \<in> set df. \<exists>date \<in> set (query_dates start end). \<exists>res. \<exists>raw \<in> set res.
          read_csv (utahaq_uri token stid (year date) (month date) datatype) = Parsed res
          \<and> esampler_error_code raw = 0 \<and> r = normalise_row to_datetime raw))"
proof (intro conjI impI ballI)
  assume "read_csv (utahaq_uri token stid yr mo datatype) = Parsed res"
  then show "utahaq_batch_get read_csv to_datetime token stid yr mo datatype
        = Some (map (normalise_row to_datetime) (filter (\<lambda>r. esampler_error_code r = 0) res))"
    by (simp add: utahaq_batch_get_def)
next
  fix r
  assume ok: "snd (utahaq_api_get read_csv to_datetime token stid start end datatype) = Inr df"
    and r: "r \<in> set df"
  define objs where "objs = map (\<lambda>date. utahaq_batch_get read_csv to_datetime token stid
                                  (year date) (month date) datatype) (query_dates start end)"
  from ok obtain all where cat: "pd_concat objs = Inr all"
    and df: "df = filter (in_bound start end) all"
    by (auto simp: utahaq_api_get_def Let_def index_within_def objs_def
             split: sum.splits if_splits)
  from r df have "r \<in> set all" by simp
  with cat obtain rows where "Some rows \<in> set objs" and rr: "r \<in> set rows"
    by (blast dest: pd_concat_member)
  then obtain date where d: "date \<in> set (query_dates start end)"
    and b: "utahaq_batch_get read_csv to_datetime token stid (year date) (month date) datatype
              = Some rows"
    by (auto simp: objs_def)
  from b obtain res where p: "read_csv (utahaq_uri token stid (year date) (month date) datatype)
                               = Parsed res"
    and rows: "rows = map (normalise_row to_datetime) (filter (\<lambda>r. esampler_error_code r = 0) res)"
    by (auto simp: utahaq_batch_get_def split: csv_reply.splits)
  from rr rows obtain raw where "raw \<in> set res" "esampler_error_code raw = 0"
    "r = normalise_row to_datetime raw"
    by auto
  with d p show "\<exists>date \<in> set (query_dates start end). \<exists>res. \<exists>raw \<in> set res.
          read_csv (utahaq_uri token stid (year date) (month date) datatype) = Parsed res
          \<and> esampler_error_code raw = 0 \<and> r = normalise_row to_datetime raw"
    by blast
qed

text \<open>
  A reversed range: when the end, \<open>stop\<close>, is before \<open>start\<close> (both naive or both
  aware), exactly one request is issued, for the month containing \<open>start\<close>. When that
  request parses to rows, aware bounds give the empty table and naive bounds
  \<^verbatim>\<open>TypeError\<close>.
\<close>

lemma reversed_range_request:
  assumes rev: "ts_less stop start" and same: "tzinfo start = tzinfo stop"
  shows "fst (utahaq_api_get read_csv to_datetime token stid start stop dataset)
           = [utahaq_uri token stid (year start) (month start) dataset]"
  using same by (simp add: utahaq_api_get_def query_dates_reversed [OF rev])

lemma reversed_range_outcome:
  assumes rev: "ts_less stop start" and same: "tzinfo start = tzinfo stop"
    and p: "read_csv (utahaq_uri token stid (year start) (month start) dataset) = Parsed res"
  shows "snd (utahaq_api_get read_csv to_datetime token stid start stop dataset)
           = (if tzinfo start = UTC then Inr [] else Inl TypeError)"
proof -
  have none: "\<not> in_bound start stop r" for r
    using rev by (metis in_bound_def ts_le_trans ts_less_not_le)
  have naive: "tzinfo start \<noteq> UTC \<Longrightarrow> tzinfo start = Naive"
    by (cases "tzinfo start") simp_all
  show ?thesis
    using same none p naive
    by (auto simp: utahaq_api_get_def query_dates_reversed [OF rev] utahaq_batch_get_def
        pd_concat_def List.map_filter_simps index_within_def)
qed

lemma hawth_batch_eval:
  "map (normalise_row read_datetime) (filter (\<lambda>r. esampler_error_code r = 0) hawth_rows)
     = hawth_batch"
  by (simp add: hawth_rows_def hawth_batch_def normalise_row_def read_datetime_def
      read_number_def digit_value_def ymd_hms_def as_utc_def)

lemma hawth_query_dates:
  "query_dates window_start window_end = [window_start]"
  by (simp add: query_dates_def date_range_MS_def rollforward_def is_on_offset_def
      next_month_start_def ymd_hms_def as_utc_def generate_range.simps ts_le_def ts_key_def
      mid_january_def mid_february_def window_start_def window_end_def)

lemma hawth_window_eval:
  "filter (in_bound window_start window_end) hawth_batch = hawth_window"
  by (simp add: hawth_batch_def hawth_window_def in_bound_def ts_le_def ts_key_def ymd_hms_def as_utc_def
      window_start_def window_end_def)

lemma hawth_run:
  "snd (utahaq_api_get hawth_archive read_datetime ''key'' ''hawth''
          window_start window_end ''pm'') = Inr hawth_window"
proof -
  have y: "year window_start = 2019" "month window_start = 1"
    "tzinfo window_start = UTC" "tzinfo window_end = UTC"
    by (simp_all add: ymd_hms_def as_utc_def window_start_def window_end_def)
  have b: "utahaq_batch_get hawth_archive read_datetime ''key'' ''hawth'' 2019 1 ''pm''
             = Some hawth_batch"
    by (simp add: utahaq_batch_get_def hawth_archive_def hawth_batch_eval)
  have c: "pd_concat [Some hawth_batch] = Inr hawth_batch"
    by (simp add: pd_concat_def List.map_filter_simps hawth_batch_def)
  show ?thesis
    unfolding utahaq_api_get_def hawth_query_dates Let_def list.map y b c
    by (simp add: index_within_def y hawth_window_eval)
qed

theorem C5_rows_within_bound_witness:
  "snd (utahaq_api_get hawth_archive read_datetime ''key'' ''hawth''
          window_start window_end ''pm'') = Inr hawth_window
   \<and> list_all (in_bound window_start window_end) hawth_window
   \<and> \<not> list_all (in_bound window_start window_end) hawth_batch"
proof -
  have out: "\<not> list_all (in_bound window_start window_end) hawth_batch"
    by (simp add: hawth_batch_def in_bound_def ts_le_def ts_key_def ymd_hms_def as_utc_def
        window_start_def window_end_def)
  show ?thesis
    using C5_rows_within_bound [OF hawth_run] hawth_run out
    by (simp add: list_all_iff in_bound_def)
qed

theorem C6_flagged_rows_dropped_witness:
  "hawth_archive (utahaq_uri ''key'' ''hawth'' 2019 1 ''pm'') = Parsed hawth_rows
   \<and> utahaq_batch_get hawth_archive read_datetime ''key'' ''hawth'' 2019 1 ''pm''
       = Some hawth_batch
   \<and> snd (utahaq_api_get hawth_archive read_datetime ''key'' ''hawth''
          window_start window_end ''pm'') = Inr hawth_window
   \<and> length (filter (\<lambda>r. esampler_error_code r \<noteq> 0) hawth_rows) = 1
   \<and> list_all (\<lambda>r. \<exists>raw. raw \<in> set hawth_rows \<and> esampler_error_code raw = 0
                     \<and> r = normalise_row read_datetime raw) hawth_window"
proof -
  have p: "hawth_archive (utahaq_uri ''key'' ''hawth'' 2019 1 ''pm'') = Parsed hawth_rows"
    by (simp add: hawth_archive_def)
  have f: "length (filter (\<lambda>r. esampler_error_code r \<noteq> 0) hawth_rows) = 1"
    by (simp add: hawth_rows_def)
  note inst = C6_flagged_rows_dropped [of hawth_archive "''key''" "''hawth''" 2019 1 "''pm''"
      hawth_rows read_datetime window_start window_end hawth_window]
  from inst p have b: "utahaq_batch_get hawth_archive read_datetime ''key'' ''hawth'' 2019 1 ''pm''
       = Some hawth_batch"
    by (simp add: hawth_batch_eval)
  from inst hawth_run
  have src: "\<forall>r \<in> set hawth_window. \<exists>date \<in> set (query_dates window_start window_end).
       \<exists>res. \<exists>raw \<in> set res.
          hawth_archive (utahaq_uri ''key'' ''hawth'' (year date) (month date) ''pm'') = Parsed res
          \<and> esampler_error_code raw = 0 \<and> r = normalise_row read_datetime raw"
    by blast
  have "list_all (\<lambda>r. \<exists>raw. raw \<in> set hawth_rows \<and> esampler_error_code raw = 0
                     \<and> r = normalise_row read_datetime raw) hawth_window"
    unfolding list_all_iff
  proof
    fix r assume "r \<in> set hawth_window"
    with src have "\<exists>(date::timestamp) res raw.
      hawth_archive (utahaq_uri ''key'' ''hawth'' (year date) (month date) ''pm'') = Parsed res
      \<and> raw \<in> set res \<and> esampler_error_code raw = 0 \<and> r = normalise_row read_datetime raw"
      unfolding Ball_def Bex_def by blast
    then obtain date :: timestamp and res raw where
      "hawth_archive (utahaq_uri ''key'' ''hawth'' (year date) (month date) ''pm'') = Parsed res"
      "raw \<in> set res" "esampler_error_code raw = 0" "r = normalise_row read_datetime raw"
      by blast
    moreover from this have "res = hawth_rows"
      by (simp add: hawth_archive_def split: if_splits)
    ultimately show "\<exists>raw. raw \<in> set hawth_rows \<and> esampler_error_code raw = 0
                     \<and> r = normalise_row read_datetime raw"
      by auto
  qed
  with p b f hawth_run show ?thesis by blast
qed

lemma docstring_reversed: "ts_less docstring_start docstring_end"
  by (simp add: ts_less_def ts_key_def ymd_hms_def docstring_start_def docstring_end_def)

lemma docstring_fields:
  "year docstring_end = 2019" "month docstring_end = 1"
  "tzinfo docstring_start = Naive" "tzinfo docstring_end = Naive"
  by (simp_all add: ymd_hms_def docstring_start_def docstring_end_def)

text \<open>
  The docstring's call itself, with its tz-naive bounds in order: the request for January
  2019 parses to rows and the bound filter raises \<^verbatim>\<open>TypeError\<close>, where the docstring
  shows a table.
\<close>

lemma docstring_call_raises:
  "snd (utahaq_api_get hawth_archive read_datetime ''key'' ''hawth''
          docstring_start docstring_end ''pm'') = Inl TypeError"
proof -
  have q: "query_dates docstring_start docstring_end = [docstring_start]"
    by (simp add: query_dates_def date_range_MS_def rollforward_def is_on_offset_def
        next_month_start_def ymd_hms_def generate_range.simps ts_le_def ts_key_def
        docstring_start_def docstring_end_def)
  have y: "year docstring_start = 2019" "month docstring_start = 1"
    by (simp_all add: ymd_hms_def docstring_start_def)
  have b: "utahaq_batch_get hawth_archive read_datetime ''key'' ''hawth'' 2019 1 ''pm''
             = Some hawth_batch"
    by (simp add: utahaq_batch_get_def hawth_archive_def hawth_batch_eval)
  have c: "pd_concat [Some hawth_batch] = Inr hawth_batch"
    by (simp add: pd_concat_def List.map_filter_simps hawth_batch_def)
  show ?thesis
    unfolding utahaq_api_get_def q Let_def list.map y b c
    by (simp add: index_within_def docstring_fields)
qed

text \<open>
  Claim C10 says that a call with \<open>end\<close> before \<open>start\<close> issues exactly one request,
  for the month containing \<open>start\<close>, and returns the empty table whenever that batch
  yields rows. For the docstring's two timestamps in reverse order, tz-naive as the
  docstring writes them, the one request for January 2019 is issued and parses to rows,
  and the call then raises \<^verbatim>\<open>TypeError\<close> in the bound filter instead of returning the
  empty table.
\<close>
theorem C10_reversed_naive_range_raises:
  "fst (utahaq_api_get hawth_archive read_datetime ''key'' ''hawth''
          docstring_end docstring_start ''pm'')
     = [utahaq_uri ''key'' ''hawth'' 2019 1 ''pm'']
   \<and> hawth_archive (utahaq_uri ''key'' ''hawth'' 2019 1 ''pm'') = Parsed hawth_rows
   \<and> snd (utahaq_api_get hawth_archive read_datetime ''key'' ''hawth''
          docstring_end docstring_start ''pm'') = Inl TypeError"
proof -
  have same: "tzinfo docstring_end = tzinfo docstring_start"
    by (simp add: docstring_fields)
  have p: "hawth_archive (utahaq_uri ''key'' ''hawth'' (year docstring_end)
             (month docstring_end) ''pm'') = Parsed hawth_rows"
    unfolding docstring_fields by (simp add: hawth_archive_def)
  note request = reversed_range_request [where start = docstring_end and stop = docstring_start
      and read_csv = hawth_archive and to_datetime = read_datetime and token = "''key''"
      and stid = "''hawth''" and dataset = "''pm''", OF docstring_reversed same]
  note outcome = reversed_range_outcome [where start = docstring_end and stop = docstring_start
      and read_csv = hawth_archive and to_datetime = read_datetime and token = "''key''"
      and stid = "''hawth''" and dataset = "''pm''" and res = hawth_rows,
      OF docstring_reversed same p]
  from request outcome p
  show ?thesis
    unfolding docstring_fields by simp
qed

subsection \<open>Provider A: request parameters\<close>

lemma params_stid:
  "map_of (synoptic_params token stid start end api_vars) ''stid'' = Some (join_if_list stid)"
  by (simp add: synoptic_params_def)

lemma params_vars:
  "map_of (synoptic_params token stid start end api_vars) ''vars'' = Some (join_if_list api_vars)"
  by (simp add: synoptic_params_def)

lemma params_start:
  "map_of (synoptic_params token stid start end api_vars) ''start''
     = Some (format_if_timestamp start)"
  by (simp add: synoptic_params_def)

lemma params_end:
  "map_of (synoptic_params token stid start end api_vars) ''end''
     = Some (format_if_timestamp end)"
  by (simp add: synoptic_params_def)

lemma join_if_list_PyList: "join_if_list (PyList xs) = PyStr (join '','' xs)"
  by (simp add: join_if_list_def)

lemma join_if_list_other: "type_of v \<noteq> list \<Longrightarrow> join_if_list v = v"
  by (cases v) (simp_all add: join_if_list_def)

lemma format_if_timestamp_PyTimestamp: "format_if_timestamp (PyTimestamp t) = PyStr (strftime t)"
  by (simp add: format_if_timestamp_def)

lemma format_if_timestamp_other: "type_of v \<noteq> Timestamp \<Longrightarrow> format_if_timestamp v = v"
  by (cases v) (simp_all add: format_if_timestamp_def)

text \<open>
  Claim C9: the request parameters carry \<open>stid\<close> and \<open>api_vars\<close> comma-joined exactly
  when the argument's type is \<open>list\<close>, and \<open>start\<close> and \<open>end\<close> formatted as
  \<^verbatim>\<open>YYYYMMDDHHMM\<close> exactly when the argument's type is \<open>Timestamp\<close>; a value of
  any other type (a tuple, an instance of a subclass of Timestamp) is passed on as it is.
\<close>
theorem C9_exact_type_conversions:
  "(stid = PyList xs \<longrightarrow>
      map_of (synoptic_params token stid start end api_vars) ''stid'' = Some (PyStr (join '','' xs)))
   \<and> (type_of stid \<noteq> list \<longrightarrow>
      map_of (synoptic_params token stid start end api_vars) ''stid'' = Some stid)
   \<and> (api_vars = PyList ys \<longrightarrow>
      map_of (synoptic_params token stid start end api_vars) ''vars'' = Some (PyStr (join '','' ys)))
   \<and> (type_of api_vars \<noteq> list \<longrightarrow>
      map_of (synoptic_params token stid start end api_vars) ''vars'' = Some api_vars)
   \<and> (start = PyTimestamp t \<longrightarrow>
      map_of (synoptic_params token stid start end api_vars) ''start'' = Some (PyStr (strftime t)))
   \<and> (type_of start \<noteq> Timestamp \<longrightarrow>
      map_of (synoptic_params token stid start end api_vars) ''start'' = Some start)
   \<and> (end = PyTimestamp u \<longrightarrow>
      map_of (synoptic_params token stid start end api_vars) ''end'' = Some (PyStr (strftime u)))
   \<and> (type_of end \<noteq> Timestamp \<longrightarrow>
      map_of (synoptic_params token stid start end api_vars) ''end'' = Some end)"
  by (simp add: params_stid params_vars params_start params_end
      join_if_list_PyList join_if_list_other
      format_if_timestamp_PyTimestamp format_if_timestamp_other)

subsection \<open>Provider A: status tests\<close>

lemma station_frames_not_OSError: "station_frames to_datetime sts \<noteq> Inl OSError"
  by (induction sts)
     (auto simp: station_frame_def station_dict_def DataFrame_def Let_def
           split: sum.splits option.splits list.splits if_splits)

lemma normalise_not_OSError: "normalise to_datetime sts \<noteq> Inl OSError"
  using station_frames_not_OSError [of to_datetime sts]
  by (auto simp: normalise_def pd_concat_frames_def set_index_def
           split: sum.splits option.splits if_splits)

lemma normalise_Nil: "normalise to_datetime [] = Inl ValueError"
  by (simp add: normalise_def pd_concat_frames_def)

text \<open>
  Claim C3, amended: \<open>synoptic_api_get\<close> raises the I/O-category error if and only if the
  status field is -1 or 200; it raises the value-category error whenever the status field
  is 2; for any other status it goes on to normalise the station list and its outcome is
  the outcome of that normalisation: a table, or the error the normalisation raises.
\<close>
theorem C3_status_dispatch:
  "(synoptic_api_get http_get to_datetime token stid start end api_vars = Inl OSError
      \<longleftrightarrow> RESPONSE_CODE (http_get (synoptic_params token stid start end api_vars)) \<in> {-1, 200})
   \<and> (RESPONSE_CODE (http_get (synoptic_params token stid start end api_vars)) = 2
      \<longrightarrow> synoptic_api_get http_get to_datetime token stid start end api_vars = Inl ValueError)
   \<and> (RESPONSE_CODE (http_get (synoptic_params token stid start end api_vars)) \<notin> {-1, 200, 2}
      \<longrightarrow> synoptic_api_get http_get to_datetime token stid start end api_vars
            = normalise to_datetime (STATION (http_get (synoptic_params token stid start end api_vars))))"
  using normalise_not_OSError
  by (auto simp: synoptic_api_get_def Let_def)

text \<open>
  Claim C8: when the status field signals success (it is none of -1, 200, 2) and the station
  list is empty, \<open>synoptic_api_get\<close> raises (the \<^verbatim>\<open>ValueError\<close> of concatenating no
  tables) instead of returning an empty table.
\<close>
theorem C8_empty_station_list_raises:
  "RESPONSE_CODE (http_get (synoptic_params token stid start end api_vars)) \<notin> {-1, 200, 2} \<Longrightarrow>
   STATION (http_get (synoptic_params token stid start end api_vars)) = [] \<Longrightarrow>
   synoptic_api_get http_get to_datetime token stid start end api_vars = Inl ValueError"
  by (simp add: synoptic_api_get_def Let_def normalise_Nil)


subsection \<open>Provider A: keys and columns of the tables\<close>

lemma dom_delete: "fst ` set (AList.delete k al) = fst ` set al - {k}"
proof -
  have "set (map fst (AList.delete k al)) = set (removeAll k (map fst al))"
    by (simp only: delete_keys)
  then show ?thesis by simp
qed

lemma fold_update_keys:
  "fst ` set (fold (\<lambda>(k, v). AList.update k (Array v)) obs d) = fst ` set d \<union> fst ` set obs"
proof (induction obs arbitrary: d)
  case Nil
  then show ?case by simp
next
  case (Cons kv obs)
  obtain k v where kv: "kv = (k, v)" by (cases kv)
  show ?case
    unfolding kv by (simp add: Cons.IH dom_update)
qed

lemma fold_update_other:
  "c \<notin> fst ` set obs \<Longrightarrow>
   map_of (fold (\<lambda>(k, v). AList.update k (Array v)) obs d) c = map_of d c"
proof (induction obs arbitrary: d)
  case Nil
  then show ?case by simp
next
  case (Cons kv obs)
  obtain k v where kv: "kv = (k, v)" by (cases kv)
  from Cons.prems kv have "c \<noteq> k" "c \<notin> fst ` set obs" by auto
  then show ?case
    unfolding kv by (simp add: Cons.IH update_conv')
qed

lemma station_dict_Inr:
  assumes "station_dict to_datetime st = Inr d"
  obtains raw where "map_of (OBSERVATIONS st) ''date_time'' = Some raw"
    and "d = fold (\<lambda>(k, v). AList.update k (Array v))
               (AList.delete ''date_time'' (OBSERVATIONS st))
               [(''date'', Array (map Stamp (map (\<lambda>c. as_utc (to_datetime c)) raw))),
                (''stid'', Scalar (Str (STID st))),
                (''latitude'', Scalar (Num (LATITUDE st))),
                (''longitude'', Scalar (Num (LONGITUDE st)))]"
  using assms by (auto simp: station_dict_def Let_def split: option.splits)

lemma station_dict_keys:
  assumes "station_dict to_datetime st = Inr d"
  shows "fst ` set d = {''date'', ''stid'', ''latitude'', ''longitude''}
                      \<union> (fst ` set (OBSERVATIONS st) - {''date_time''})"
proof -
  from assms obtain raw where
    dd: "d = fold (\<lambda>(k, v). AList.update k (Array v))
               (AList.delete ''date_time'' (OBSERVATIONS st))
               [(''date'', Array (map Stamp (map (\<lambda>c. as_utc (to_datetime c)) raw))),
                (''stid'', Scalar (Str (STID st))),
                (''latitude'', Scalar (Num (LATITUDE st))),
                (''longitude'', Scalar (Num (LONGITUDE st)))]"
    by (rule station_dict_Inr)
  show ?thesis
    unfolding dd fold_update_keys dom_delete by simp
qed

lemma station_dict_date:
  assumes "station_dict to_datetime st = Inr d"
    and "''date'' \<notin> fst ` set (OBSERVATIONS st)"
  shows "map_of d ''date'' = Some (Array (station_index to_datetime st))"
proof -
  from assms(2) have n: "''date'' \<notin> fst ` set (AList.delete ''date_time'' (OBSERVATIONS st))"
    by (simp add: dom_delete)
  from assms(1) obtain raw where raw: "map_of (OBSERVATIONS st) ''date_time'' = Some raw"
    and dd: "d = fold (\<lambda>(k, v). AList.update k (Array v))
               (AList.delete ''date_time'' (OBSERVATIONS st))
               [(''date'', Array (map Stamp (map (\<lambda>c. as_utc (to_datetime c)) raw))),
                (''stid'', Scalar (Str (STID st))),
                (''latitude'', Scalar (Num (LATITUDE st))),
                (''longitude'', Scalar (Num (LONGITUDE st)))]"
    by (rule station_dict_Inr)
  show ?thesis
    unfolding dd by (simp add: fold_update_other [OF n] station_index_def raw)
qed

lemma DataFrame_keys: "DataFrame d = Inr df \<Longrightarrow> fst ` set df = fst ` set d"
  by (force simp: DataFrame_def image_iff split: list.splits if_splits)

lemma map_of_broadcast:
  "map_of (map (\<lambda>(k, v). (k, broadcast n v)) d) c = map_option (broadcast n) (map_of d c)"
  by (induction d) auto

lemma DataFrame_array:
  "DataFrame d = Inr df \<Longrightarrow> map_of d c = Some (Array xs) \<Longrightarrow> map_of df c = Some xs"
  by (auto simp: DataFrame_def map_of_broadcast split: list.splits if_splits)


lemma station_frame_keys:
  assumes "station_frame to_datetime st = Inr df"
  shows "fst ` set df = {''date'', ''stid'', ''latitude'', ''longitude''}
                       \<union> (fst ` set (OBSERVATIONS st) - {''date_time''})"
proof -
  from assms obtain d where d: "station_dict to_datetime st = Inr d" and f: "DataFrame d = Inr df"
    by (auto simp: station_frame_def split: sum.splits)
  from DataFrame_keys [OF f] station_dict_keys [OF d] show ?thesis by simp
qed

lemma station_frame_date:
  assumes "station_frame to_datetime st = Inr df"
    and "''date'' \<notin> fst ` set (OBSERVATIONS st)"
  shows "column_of ''date'' df = station_index to_datetime st"
proof -
  from assms obtain d where d: "station_dict to_datetime st = Inr d" and f: "DataFrame d = Inr df"
    by (auto simp: station_frame_def split: sum.splits)
  from DataFrame_array [OF f station_dict_date [OF d assms(2)]] show ?thesis
    by (simp add: column_of_def)
qed

lemma station_frames_Cons:
  assumes "station_frames to_datetime (st # sts) = Inr dfs"
  obtains df rest where "station_frame to_datetime st = Inr df"
    and "station_frames to_datetime sts = Inr rest" and "dfs = df # rest"
  using assms by (auto split: sum.splits)

lemma Un_merge: "(A \<union> B) \<union> (A \<union> C) = A \<union> (B \<union> C)"
  by blast

lemma station_frames_keys:
  "station_frames to_datetime sts = Inr dfs \<Longrightarrow> sts \<noteq> [] \<Longrightarrow>
   (\<Union>df \<in> set dfs. fst ` set df)
     = {''date'', ''stid'', ''latitude'', ''longitude''}
       \<union> (\<Union>st \<in> set sts. fst ` set (OBSERVATIONS st) - {''date_time''})"
proof (induction sts arbitrary: dfs)
  case Nil
  then show ?case by simp
next
  case (Cons st sts)
  from Cons.prems(1) obtain df rest where df: "station_frame to_datetime st = Inr df"
    and rest: "station_frames to_datetime sts = Inr rest" and dfs: "dfs = df # rest"
    by (rule station_frames_Cons)
  show ?case
  proof (cases "sts = []")
    case True
    with rest have "rest = []" by simp
    with True dfs station_frame_keys [OF df] show ?thesis by simp
  next
    case False
    have "(\<Union>df \<in> set dfs. fst ` set df) = fst ` set df \<union> (\<Union>df \<in> set rest. fst ` set df)"
      by (simp add: dfs)
    also have "\<dots> = ({''date'', ''stid'', ''latitude'', ''longitude''}
                       \<union> (fst ` set (OBSERVATIONS st) - {''date_time''}))
                  \<union> ({''date'', ''stid'', ''latitude'', ''longitude''}
       \<union> (\<Union>st \<in> set sts. fst ` set (OBSERVATIONS st) - {''date_time''}))"
      by (simp only: station_frame_keys [OF df] Cons.IH [OF rest False])
    also have "\<dots> = {''date'', ''stid'', ''latitude'', ''longitude''}
       \<union> (\<Union>st \<in> set (st # sts). fst ` set (OBSERVATIONS st) - {''date_time''})"
      by (simp only: list.set UN_insert Un_merge)
    finally show ?thesis .
  qed
qed

lemma station_frames_date:
  "station_frames to_datetime sts = Inr dfs \<Longrightarrow>
   \<forall>st \<in> set sts. ''date'' \<notin> fst ` set (OBSERVATIONS st) \<Longrightarrow>
   concat (map (column_of ''date'') dfs) = concat (map (station_index to_datetime) sts)"
proof (induction sts arbitrary: dfs)
  case Nil
  then show ?case by simp
next
  case (Cons st sts)
  from Cons.prems(1) obtain df rest where df: "station_frame to_datetime st = Inr df"
    and rest: "station_frames to_datetime sts = Inr rest" and dfs: "dfs = df # rest"
    by (rule station_frames_Cons)
  from Cons.prems(2) have a: "''date'' \<notin> fst ` set (OBSERVATIONS st)"
    and b: "\<forall>st \<in> set sts. ''date'' \<notin> fst ` set (OBSERVATIONS st)" by simp_all
  show ?case
    unfolding dfs by (simp add: station_frame_date [OF df a] Cons.IH [OF rest b])
qed

lemma set_first_seen: "set (first_seen acc xs) = set acc \<union> set xs"
  by (induction xs arbitrary: acc) auto

lemma map_of_tabulate:
  "map_of (map (\<lambda>c. (c, f c)) cols) c = (if c \<in> set cols then Some (f c) else None)"
  by (induction cols) auto

lemma pd_concat_frames_Inr:
  assumes "pd_concat_frames dfs = Inr df"
  shows "dfs \<noteq> []"
    and "df = map (\<lambda>c. (c, concat (map (column_of c) dfs)))
                  (first_seen [] (concat (map (map fst) dfs)))"
  using assms by (auto simp: pd_concat_frames_def split: if_splits)

lemma pd_concat_frames_keys:
  assumes "pd_concat_frames dfs = Inr df"
  shows "fst ` set df = (\<Union>df \<in> set dfs. fst ` set df)"
  unfolding pd_concat_frames_Inr(2) [OF assms]
  by (simp add: image_image set_first_seen)

lemma pd_concat_frames_column:
  assumes "pd_concat_frames dfs = Inr df"
    and "c \<in> (\<Union>df \<in> set dfs. fst ` set df)"
  shows "map_of df c = Some (concat (map (column_of c) dfs))"
  unfolding pd_concat_frames_Inr(2) [OF assms(1)] map_of_tabulate
  using assms(2) by (simp add: set_first_seen)

lemma set_index_keys:
  assumes "set_index k df = Inr t"
  shows "fst ` set (columns t) = fst ` set df - {k}"
proof -
  from assms have "columns t = AList.delete k df"
    by (auto simp: set_index_def split: option.splits)
  then show ?thesis by (simp only: dom_delete)
qed

lemma set_index_index:
  "set_index k df = Inr t \<Longrightarrow> map_of df k = Some (index t)"
  by (auto simp: set_index_def split: option.splits)

lemma normalise_Inr:
  assumes "normalise to_datetime sts = Inr t"
  obtains dfs df where "station_frames to_datetime sts = Inr dfs"
    and "pd_concat_frames dfs = Inr df" and "set_index ''date'' df = Inr t"
  using assms by (auto simp: normalise_def split: sum.splits)

lemma normalise_columns:
  assumes "normalise to_datetime sts = Inr t"
  shows "fst ` set (columns t)
           = ({''stid'', ''latitude'', ''longitude''}
              \<union> (\<Union>st \<in> set sts. fst ` set (OBSERVATIONS st) - {''date_time''})) - {''date''}"
proof -
  from assms obtain dfs df where fs: "station_frames to_datetime sts = Inr dfs"
    and cat: "pd_concat_frames dfs = Inr df" and si: "set_index ''date'' df = Inr t"
    by (rule normalise_Inr)
  from pd_concat_frames_Inr(1) [OF cat] fs have ne: "sts \<noteq> []" by auto
  have "fst ` set (columns t) = ({''date'', ''stid'', ''latitude'', ''longitude''}
       \<union> (\<Union>st \<in> set sts. fst ` set (OBSERVATIONS st) - {''date_time''})) - {''date''}"
    by (simp only: set_index_keys [OF si] pd_concat_frames_keys [OF cat]
        station_frames_keys [OF fs ne])
  then show ?thesis by auto
qed

lemma normalise_index:
  assumes "normalise to_datetime sts = Inr t"
    and "\<forall>st \<in> set sts. ''date'' \<notin> fst ` set (OBSERVATIONS st)"
  shows "index t = concat (map (station_index to_datetime) sts)"
proof -
  from assms(1) obtain dfs df where fs: "station_frames to_datetime sts = Inr dfs"
    and cat: "pd_concat_frames dfs = Inr df" and si: "set_index ''date'' df = Inr t"
    by (rule normalise_Inr)
  from pd_concat_frames_Inr(1) [OF cat] fs have ne: "sts \<noteq> []" by auto
  have "''date'' \<in> (\<Union>df \<in> set dfs. fst ` set df)"
    unfolding station_frames_keys [OF fs ne] by simp
  from pd_concat_frames_column [OF cat this] set_index_index [OF si]
  have "index t = concat (map (column_of ''date'') dfs)" by simp
  with station_frames_date [OF fs assms(2)] show ?thesis by simp
qed

subsection \<open>Index and columns of the returned tables\<close>

lemma pd_concat_stamps:
  "pd_concat objs = Inr df \<Longrightarrow>
   map stamp df = concat (map (\<lambda>obj. case obj of None \<Rightarrow> [] | Some rows \<Rightarrow> map stamp rows) objs)"
proof -
  have "map stamp (concat (List.map_filter id objs))
          = concat (map (\<lambda>obj. case obj of None \<Rightarrow> [] | Some rows \<Rightarrow> map stamp rows) objs)"
    by (induction objs) (auto simp: List.map_filter_simps map_concat split: option.splits)
  moreover assume "pd_concat objs = Inr df"
  then have "df = concat (List.map_filter id objs)"
    by (auto simp: pd_concat_def Let_def split: if_splits)
  ultimately show ?thesis by simp
qed

lemma utahaq_api_get_Inr:
  assumes "snd (utahaq_api_get read_csv to_datetime token stid start end datatype) = Inr df"
  obtains all where
    "pd_concat (map (\<lambda>date. utahaq_batch_get read_csv to_datetime token stid
                               (year date) (month date) datatype) (query_dates start end)) = Inr all"
    and "df = filter (in_bound start end) all"
  using assms
  by (auto simp: utahaq_api_get_def Let_def index_within_def split: sum.splits if_splits)

lemma synoptic_api_get_Inr:
  assumes "synoptic_api_get http_get to_datetime token stid start end api_vars = Inr t"
  shows "normalise to_datetime (STATION (http_get (synoptic_params token stid start end api_vars)))
           = Inr t"
  using assms by (auto simp: synoptic_api_get_def Let_def split: if_splits)

text \<open>
  Claim C4, amended: the index of a returned table lists the timestamps in delivery order,
  unsorted. For \<open>synoptic_api_get\<close> (no observation field being named \<^verbatim>\<open>date\<close>) it
  is the stations' \<^verbatim>\<open>date_time\<close> arrays one after the other, stations in response
  order; for \<open>utahaq_api_get\<close> it is the timestamps of the monthly batches, in request
  order and row order, that lie within the bound.
\<close>
theorem C4_index_in_delivery_order:
  "(synoptic_api_get http_get to_datetime token stid start end api_vars = Inr t
      \<and> (\<forall>st \<in> set (STATION (http_get (synoptic_params token stid start end api_vars))).
             ''date'' \<notin> fst ` set (OBSERVATIONS st))
     \<longrightarrow> index t = concat (map (station_index to_datetime)
                           (STATION (http_get (synoptic_params token stid start end api_vars)))))
   \<and> (snd (utahaq_api_get read_csv to_datetime' token' stid' start' end' datatype) = Inr df
     \<longrightarrow> map stamp df
           = filter (\<lambda>ts. ts_le start' ts \<and> ts_le ts end')
               (concat (map (batch_index read_csv to_datetime' token' stid' datatype)
                          (query_dates start' end'))))"
proof (intro conjI impI)
  assume "synoptic_api_get http_get to_datetime token stid start end api_vars = Inr t
      \<and> (\<forall>st \<in> set (STATION (http_get (synoptic_params token stid start end api_vars))).
             ''date'' \<notin> fst ` set (OBSERVATIONS st))"
  then show "index t = concat (map (station_index to_datetime)
                           (STATION (http_get (synoptic_params token stid start end api_vars))))"
    by (blast intro: normalise_index dest: synoptic_api_get_Inr)
next
  assume "snd (utahaq_api_get read_csv to_datetime' token' stid' start' end' datatype) = Inr df"
  then obtain all where
    cat: "pd_concat (map (\<lambda>date. utahaq_batch_get read_csv to_datetime' token' stid'
                               (year date) (month date) datatype) (query_dates start' end')) = Inr all"
    and df: "df = filter (in_bound start' end') all"
    by (rule utahaq_api_get_Inr)
  have "map stamp df = filter (\<lambda>ts. ts_le start' ts \<and> ts_le ts end') (map stamp all)"
    unfolding df by (simp add: filter_map comp_def in_bound_def [abs_def])
  also have "map stamp all = concat (map (batch_index read_csv to_datetime' token' stid' datatype)
                          (query_dates start' end'))"
    unfolding pd_concat_stamps [OF cat] by (simp add: comp_def batch_index_def [abs_def])
  finally show "map stamp df
           = filter (\<lambda>ts. ts_le start' ts \<and> ts_le ts end')
               (concat (map (batch_index read_csv to_datetime' token' stid' datatype)
                          (query_dates start' end')))" .
qed

text \<open>
  Claim C7, amended: the columns of a table returned by \<open>synoptic_api_get\<close> are the
  fixed \<^verbatim>\<open>stid\<close>, \<^verbatim>\<open>latitude\<close> and \<^verbatim>\<open>longitude\<close> columns and every observation
  field of every station of the response other than \<^verbatim>\<open>date_time\<close> (less the column
  \<^verbatim>\<open>date\<close>, which becomes the index), whatever variables were requested.
\<close>
theorem C7_columns_follow_response:
  "synoptic_api_get http_get to_datetime token stid start end api_vars = Inr t \<Longrightarrow>
   fst ` set (columns t)
     = ({''stid'', ''latitude'', ''longitude''}
        \<union> (\<Union>st \<in> set (STATION (http_get (synoptic_params token stid start end api_vars))).
              fst ` set (OBSERVATIONS st) - {''date_time''})) - {''date''}"
  by (rule normalise_columns) (rule synoptic_api_get_Inr)

subsection \<open>Provider A: concrete runs\<close>

lemma read_midnight: "read_datetime ''2019-01-01T00:00:00Z'' = midnight"
  by (simp add: read_datetime_def read_number_def digit_value_def midnight_def ymd_hms_def as_utc_def)

lemma read_five_past: "read_datetime ''2019-01-01T00:05:00Z'' = five_past"
  by (simp add: read_datetime_def read_number_def digit_value_def five_past_def ymd_hms_def as_utc_def)

lemma as_utc_midnight: "as_utc midnight = midnight"
  by (simp add: midnight_def as_utc_def)

lemma as_utc_five_past: "as_utc five_past = five_past"
  by (simp add: five_past_def as_utc_def)

lemma kslc_frame:
  "station_frame read_cell kslc =
     Inr [(''date'', [Stamp midnight, Stamp five_past]),
          (''stid'', [Str ''KSLC'', Str ''KSLC'']),
          (''latitude'', [Num 40.77069, Num 40.77069]),
          (''longitude'', [Num (-111.96503), Num (-111.96503)]),
          (''air_temp_set_1'', [Num (-5), Num (-4)]),
          (''wind_speed_set_1'', [Num 1.5, Null])]"
  by (simp add: station_frame_def station_dict_def kslc_def DataFrame_def
      List.map_filter_simps read_midnight read_five_past as_utc_midnight as_utc_five_past)

lemma wbb_frame:
  "station_frame read_cell wbb =
     Inr [(''date'', [Stamp midnight, Stamp five_past]),
          (''stid'', [Str ''WBB'', Str ''WBB'']),
          (''latitude'', [Num 40.76623, Num 40.76623]),
          (''longitude'', [Num (-111.84755), Num (-111.84755)]),
          (''air_temp_set_1'', [Num (-3), Num (-3)])]"
  by (simp add: station_frame_def station_dict_def wbb_def DataFrame_def
      List.map_filter_simps read_midnight read_five_past as_utc_midnight as_utc_five_past)

lemma kslc_normalise: "normalise read_cell [kslc] = Inr kslc_table"
  by (simp add: normalise_def kslc_frame pd_concat_frames_def column_of_def set_index_def
      kslc_table_def nrows_def)

lemma two_station_normalise: "normalise read_cell [kslc, wbb] = Inr two_station_table"
  by (simp add: normalise_def kslc_frame wbb_frame pd_concat_frames_def column_of_def
      set_index_def two_station_table_def nrows_def)

lemma two_station_run:
  "synoptic_api_get two_station_provider read_cell (PyStr ''tok'') (PyList [''kslc'', ''wbb''])
     (PyStr ''201901010000'') (PyStr ''201901010010'') (PyList [''air_temp''])
   = Inr two_station_table"
  by (simp add: synoptic_api_get_def two_station_provider_def two_station_normalise)

lemma kslc_run:
  "synoptic_api_get kslc_provider read_cell (PyStr ''tok'') (PyStr ''kslc'')
     (PyStr ''201901010000'') (PyStr ''201901010010'') (PyStr ''air_temp'')
   = Inr kslc_table"
  by (simp add: synoptic_api_get_def kslc_provider_def kslc_normalise)

text \<open>
  Claim C3 as stated fails: with status 1 and an empty station list the call raises the
  value-category error although the status field is not 2.
\<close>
theorem C3_value_error_without_status_2:
  "synoptic_api_get no_station_provider read_cell (PyStr ''tok'') (PyStr ''kslc'')
     (PyStr ''201901010000'') (PyStr ''201901010010'') (PyStr ''air_temp'')
   = Inl ValueError
   \<and> RESPONSE_CODE (no_station_provider
         (synoptic_params (PyStr ''tok'') (PyStr ''kslc'')
            (PyStr ''201901010000'') (PyStr ''201901010010'') (PyStr ''air_temp''))) \<noteq> 2"
  by (simp add: synoptic_api_get_def no_station_provider_def normalise_Nil)

theorem C3_status_dispatch_witness:
  "synoptic_api_get bad_token_provider read_cell (PyStr ''tok'') (PyStr ''kslc'')
     (PyStr ''201901010000'') (PyStr ''201901010010'') (PyStr ''air_temp'') = Inl OSError
   \<and> synoptic_api_get no_data_provider read_cell (PyStr ''tok'') (PyStr ''kslc'')
     (PyStr ''201901010000'') (PyStr ''201901010010'') (PyStr ''air_temp'') = Inl ValueError
   \<and> synoptic_api_get kslc_provider read_cell (PyStr ''tok'') (PyStr ''kslc'')
     (PyStr ''201901010000'') (PyStr ''201901010010'') (PyStr ''air_temp'')
     = normalise read_cell [kslc]"
proof -
  have "synoptic_api_get bad_token_provider read_cell (PyStr ''tok'') (PyStr ''kslc'')
     (PyStr ''201901010000'') (PyStr ''201901010010'') (PyStr ''air_temp'') = Inl OSError"
    using C3_status_dispatch [of bad_token_provider read_cell "PyStr ''tok''" "PyStr ''kslc''"
      "PyStr ''201901010000''" "PyStr ''201901010010''" "PyStr ''air_temp''"]
    by (simp add: bad_token_provider_def)
  moreover
  have "synoptic_api_get no_data_provider read_cell (PyStr ''tok'') (PyStr ''kslc'')
     (PyStr ''201901010000'') (PyStr ''201901010010'') (PyStr ''air_temp'') = Inl ValueError"
    using C3_status_dispatch [of no_data_provider read_cell "PyStr ''tok''" "PyStr ''kslc''"
      "PyStr ''201901010000''" "PyStr ''201901010010''" "PyStr ''air_temp''"]
    by (simp add: no_data_provider_def)
  moreover
  have "synoptic_api_get kslc_provider read_cell (PyStr ''tok'') (PyStr ''kslc'')
     (PyStr ''201901010000'') (PyStr ''201901010010'') (PyStr ''air_temp'')
     = normalise read_cell [kslc]"
    using C3_status_dispatch [of kslc_provider read_cell "PyStr ''tok''" "PyStr ''kslc''"
      "PyStr ''201901010000''" "PyStr ''201901010010''" "PyStr ''air_temp''"]
    by (simp add: kslc_provider_def)
  ultimately show ?thesis by blast
qed

text \<open>
  Claim C4 as stated fails: for two stations reporting at the same two times, the index of
  the returned table is not ascending.
\<close>
theorem C4_two_stations_not_ascending:
  "synoptic_api_get two_station_provider read_cell (PyStr ''tok'') (PyList [''kslc'', ''wbb''])
     (PyStr ''201901010000'') (PyStr ''201901010010'') (PyList [''air_temp''])
   = Inr two_station_table
   \<and> index two_station_table = [Stamp midnight, Stamp five_past, Stamp midnight, Stamp five_past]
   \<and> \<not> ascending [midnight, five_past, midnight, five_past]"
  by (simp add: two_station_run two_station_table_def ascending_def ts_le_def ts_key_def
      midnight_def five_past_def ymd_hms_def as_utc_def)

theorem C4_index_in_delivery_order_witness:
  "synoptic_api_get two_station_provider read_cell (PyStr ''tok'') (PyList [''kslc'', ''wbb''])
     (PyStr ''201901010000'') (PyStr ''201901010010'') (PyList [''air_temp''])
   = Inr two_station_table
   \<and> ''date'' \<notin> fst ` set (OBSERVATIONS kslc) \<and> ''date'' \<notin> fst ` set (OBSERVATIONS wbb)
   \<and> index two_station_table = station_index read_cell kslc @ station_index read_cell wbb
   \<and> snd (utahaq_api_get hawth_archive read_datetime ''key'' ''hawth''
            window_start window_end ''pm'') = Inr hawth_window
   \<and> map stamp hawth_window
       = filter (\<lambda>ts. ts_le window_start ts \<and> ts_le ts window_end)
           (concat (map (batch_index hawth_archive read_datetime ''key'' ''hawth'' ''pm'')
                      (query_dates window_start window_end)))"
proof -
  have nd: "''date'' \<notin> fst ` set (OBSERVATIONS kslc)" "''date'' \<notin> fst ` set (OBSERVATIONS wbb)"
    by (simp_all add: kslc_def wbb_def)
  have st: "STATION (two_station_provider params) = [kslc, wbb]" for params
    by (simp add: two_station_provider_def)
  note inst = C4_index_in_delivery_order [of two_station_provider read_cell "PyStr ''tok''"
      "PyList [''kslc'', ''wbb'']" "PyStr ''201901010000''" "PyStr ''201901010010''"
      "PyList [''air_temp'']" two_station_table
      hawth_archive read_datetime "''key''" "''hawth''" window_start window_end "''pm''"
      hawth_window]
  from inst two_station_run nd
  have a: "index two_station_table = station_index read_cell kslc @ station_index read_cell wbb"
    unfolding st by simp
  from inst hawth_run
  have b: "map stamp hawth_window
       = filter (\<lambda>ts. ts_le window_start ts \<and> ts_le ts window_end)
           (concat (map (batch_index hawth_archive read_datetime ''key'' ''hawth'' ''pm'')
                      (query_dates window_start window_end)))"
    by blast
  from two_station_run nd a hawth_run b show ?thesis by blast
qed

text \<open>
  Claim C7 as stated fails: the docstring's call, requesting \<^verbatim>\<open>air_temp\<close>, returns
  the columns the reply carries, \<^verbatim>\<open>air_temp_set_1\<close> and \<^verbatim>\<open>wind_speed_set_1\<close>.
\<close>
theorem C7_unrequested_column_returned:
  "synoptic_api_get kslc_provider read_cell (PyStr ''tok'') (PyStr ''kslc'')
     (PyStr ''201901010000'') (PyStr ''201901010010'') (PyStr ''air_temp'')
   = Inr kslc_table
   \<and> map fst (columns kslc_table)
       = [''stid'', ''latitude'', ''longitude'', ''air_temp_set_1'', ''wind_speed_set_1'']
   \<and> set (map fst (columns kslc_table)) \<noteq> {''air_temp'', ''stid'', ''latitude'', ''longitude''}"
proof -
  have c: "map fst (columns kslc_table)
       = [''stid'', ''latitude'', ''longitude'', ''air_temp_set_1'', ''wind_speed_set_1'']"
    by (simp add: kslc_table_def)
  have "''wind_speed_set_1'' \<in> set (map fst (columns kslc_table))"
    unfolding c by simp
  moreover have "''wind_speed_set_1'' \<notin> {''air_temp'', ''stid'', ''latitude'', ''longitude''}"
    by simp
  ultimately have "set (map fst (columns kslc_table))
                     \<noteq> {''air_temp'', ''stid'', ''latitude'', ''longitude''}"
    by metis
  with kslc_run c show ?thesis by blast
qed

theorem C7_columns_follow_response_witness:
  "synoptic_api_get two_station_provider read_cell (PyStr ''tok'') (PyList [''kslc'', ''wbb''])
     (PyStr ''201901010000'') (PyStr ''201901010010'') (PyList [''air_temp''])
   = Inr two_station_table
   \<and> fst ` set (columns two_station_table)
       = ({''stid'', ''latitude'', ''longitude''}
          \<union> ((fst ` set (OBSERVATIONS kslc) - {''date_time''})
              \<union> (fst ` set (OBSERVATIONS wbb) - {''date_time''}))) - {''date''}"
proof -
  have st: "STATION (two_station_provider params) = [kslc, wbb]" for params
    by (simp add: two_station_provider_def)
  from C7_columns_follow_response [OF two_station_run]
  have "fst ` set (columns two_station_table)
       = ({''stid'', ''latitude'', ''longitude''}
          \<union> ((fst ` set (OBSERVATIONS kslc) - {''date_time''})
              \<union> (fst ` set (OBSERVATIONS wbb) - {''date_time''}))) - {''date''}"
    unfolding st by (simp only: list.set UN_insert UN_empty Un_empty_right)
  with two_station_run show ?thesis by blast
qed

theorem C8_empty_station_list_raises_witness:
  "RESPONSE_CODE (no_station_provider
      (synoptic_params (PyStr ''tok'') (PyList [''kslc'', ''wbb''])
         (PyStr ''201901010000'') (PyStr ''201901010010'') PyNone)) \<notin> {-1, 200, 2}
   \<and> STATION (no_station_provider
      (synoptic_params (PyStr ''tok'') (PyList [''kslc'', ''wbb''])
         (PyStr ''201901010000'') (PyStr ''201901010010'') PyNone)) = []
   \<and> synoptic_api_get no_station_provider read_cell (PyStr ''tok'') (PyList [''kslc'', ''wbb''])
        (PyStr ''201901010000'') (PyStr ''201901010010'') PyNone = Inl ValueError"
proof -
  have c: "RESPONSE_CODE (no_station_provider
      (synoptic_params (PyStr ''tok'') (PyList [''kslc'', ''wbb''])
         (PyStr ''201901010000'') (PyStr ''201901010010'') PyNone)) \<notin> {-1, 200, 2}"
    by (simp add: no_station_provider_def)
  have e: "STATION (no_station_provider
      (synoptic_params (PyStr ''tok'') (PyList [''kslc'', ''wbb''])
         (PyStr ''201901010000'') (PyStr ''201901010010'') PyNone)) = []"
    by (simp add: no_station_provider_def)
  from C8_empty_station_list_raises [of no_station_provider "PyStr ''tok''"
      "PyList [''kslc'', ''wbb'']" "PyStr ''201901010000''" "PyStr ''201901010010''" PyNone
      read_cell] c e
  show ?thesis by blast
qed

lemma strftime_midnight: "strftime midnight = ''201901010000''"
  by (simp add: strftime_def midnight_def ymd_hms_def as_utc_def str_nat.simps zfill_def decimal_digit_def)

lemma strftime_five_past: "strftime five_past = ''201901010005''"
  by (simp add: strftime_def five_past_def ymd_hms_def as_utc_def str_nat.simps zfill_def decimal_digit_def)

theorem C9_exact_type_conversions_witness:
  "map_of (synoptic_params (PyStr ''tok'') (PyList [''kslc'', ''wbb'']) (PyTimestamp midnight)
             (PyTimestampSubclass five_past) (PyTuple [''air_temp'', ''wind_speed'']))
       ''stid'' = Some (PyStr ''kslc,wbb'')
   \<and> map_of (synoptic_params (PyStr ''tok'') (PyList [''kslc'', ''wbb'']) (PyTimestamp midnight)
             (PyTimestampSubclass five_past) (PyTuple [''air_temp'', ''wind_speed'']))
       ''vars'' = Some (PyTuple [''air_temp'', ''wind_speed''])
   \<and> map_of (synoptic_params (PyStr ''tok'') (PyList [''kslc'', ''wbb'']) (PyTimestamp midnight)
             (PyTimestampSubclass five_past) (PyTuple [''air_temp'', ''wind_speed'']))
       ''start'' = Some (PyStr ''201901010000'')
   \<and> map_of (synoptic_params (PyStr ''tok'') (PyList [''kslc'', ''wbb'']) (PyTimestamp midnight)
             (PyTimestampSubclass five_past) (PyTuple [''air_temp'', ''wind_speed'']))
       ''end'' = Some (PyTimestampSubclass five_past)
   \<and> map_of (synoptic_params (PyStr ''tok'') (PyTuple [''kslc'', ''wbb'']) (PyStr ''201901010000'')
             (PyTimestamp five_past) (PyList [''air_temp'', ''wind_speed'']))
       ''stid'' = Some (PyTuple [''kslc'', ''wbb''])
   \<and> map_of (synoptic_params (PyStr ''tok'') (PyTuple [''kslc'', ''wbb'']) (PyStr ''201901010000'')
             (PyTimestamp five_past) (PyList [''air_temp'', ''wind_speed'']))
       ''vars'' = Some (PyStr ''air_temp,wind_speed'')
   \<and> map_of (synoptic_params (PyStr ''tok'') (PyTuple [''kslc'', ''wbb'']) (PyStr ''201901010000'')
             (PyTimestamp five_past) (PyList [''air_temp'', ''wind_speed'']))
       ''start'' = Some (PyStr ''201901010000'')
   \<and> map_of (synoptic_params (PyStr ''tok'') (PyTuple [''kslc'', ''wbb'']) (PyStr ''201901010000'')
             (PyTimestamp five_past) (PyList [''air_temp'', ''wind_speed'']))
       ''end'' = Some (PyStr ''201901010005'')"
  using
    C9_exact_type_conversions [of "PyList [''kslc'', ''wbb'']" "[''kslc'', ''wbb'']"
      "PyStr ''tok''" "PyTimestamp midnight" "PyTimestampSubclass five_past"
      "PyTuple [''air_temp'', ''wind_speed'']" "[]" midnight midnight]
    C9_exact_type_conversions [of "PyTuple [''kslc'', ''wbb'']" "[]"
      "PyStr ''tok''" "PyStr ''201901010000''" "PyTimestamp five_past"
      "PyList [''air_temp'', ''wind_speed'']" "[''air_temp'', ''wind_speed'']" midnight five_past]
  by (simp add: strftime_midnight strftime_five_past)

end
